theory Spec2Isabelle
  imports Main "HOL-Library.Word"
begin

section \<open>JavaScript values\<close>

text \<open>
  The request body, the three request fields and the provider's result are values of
  the JavaScript runtime. A number is carried as the text that the runtime's number to
  string conversion gives for it (one text per value; negative zero renders as \<open>0\<close>):
  the handlers use a number only through its truthiness and inside a template literal.
  An object is its property table, each key once, looked up by key.
\<close>

datatype jsval =
    JUndefined
  | JNull
  | JBool bool
  | JNum string
  | JStr string
  | JArr "jsval list"
  | JObj "(string \<times> jsval) list"

text \<open>Thrown values: \<open>new Error(message)\<close> and the runtime's \<open>TypeError\<close>.\<close>

datatype js_error = JsError string | JsTypeError string

fun message :: "js_error \<Rightarrow> string" where
  "message (JsError m) = m"
| "message (JsTypeError m) = m"

text \<open>ToBoolean: \<open>undefined\<close>, \<open>null\<close>, \<open>false\<close>, \<open>0\<close>, \<open>NaN\<close> and \<open>""\<close> are falsy.\<close>

fun truthy :: "jsval \<Rightarrow> bool" where
  "truthy JUndefined = False"
| "truthy JNull = False"
| "truthy (JBool b) = b"
| "truthy (JNum t) = (t \<noteq> ''0'' \<and> t \<noteq> ''NaN'')"
| "truthy (JStr s) = (s \<noteq> [])"
| "truthy (JArr xs) = True"
| "truthy (JObj kvs) = True"

text \<open>The prefix operator \<open>!\<close>.\<close>

definition js_not :: "jsval \<Rightarrow> bool" where
  "js_not v = (\<not> truthy v)"

text \<open>
  Reading a named property \<open>v.k\<close>. On \<open>undefined\<close> and \<open>null\<close> the read throws a
  TypeError. The names the handlers read (\<open>userPhoto\<close>, \<open>productImage\<close>, \<open>prompt\<close>,
  \<open>response\<close>, \<open>candidates\<close>, \<open>content\<close>, \<open>parts\<close>, \<open>inlineData\<close>, \<open>data\<close>) are
  defined on no built-in prototype, so on a boolean, a number, a string or an array the
  read gives \<open>undefined\<close>.
\<close>

fun own_prop :: "jsval \<Rightarrow> string \<Rightarrow> jsval" where
  "own_prop (JObj kvs) k = (case map_of kvs k of None \<Rightarrow> JUndefined | Some v \<Rightarrow> v)"
| "own_prop v k = JUndefined"

fun nullish_name :: "jsval \<Rightarrow> string" where
  "nullish_name JNull = ''null''"
| "nullish_name v = ''undefined''"

definition get_prop :: "jsval \<Rightarrow> string \<Rightarrow> js_error + jsval" where
  "get_prop v k =
     (if v = JUndefined \<or> v = JNull
      then Inl (JsTypeError (''Cannot read properties of '' @ nullish_name v @
                             '' (reading '' @ [CHR 0x27] @ k @ [CHR 0x27] @ '')''))
      else Inr (own_prop v k))"

text \<open>Reading index zero, \<open>v[0]\<close>.\<close>

definition get_index0 :: "jsval \<Rightarrow> js_error + jsval" where
  "get_index0 v =
     (if v = JUndefined \<or> v = JNull
      then Inl (JsTypeError (''Cannot read properties of '' @ nullish_name v @
                             '' (reading '' @ [CHR 0x27] @ ''0'' @ [CHR 0x27] @ '')''))
      else Inr (case v of
                  JArr xs \<Rightarrow> (case xs of [] \<Rightarrow> JUndefined | x # _ \<Rightarrow> x)
                | JStr s \<Rightarrow> (case s of [] \<Rightarrow> JUndefined | c # _ \<Rightarrow> JStr [c])
                | _ \<Rightarrow> own_prop v ''0''))"

text \<open>A chain of reads such as \<open>a.b[0].c\<close>: the first read that throws ends it.\<close>

datatype accessor = Prop string | Index0

fun access :: "jsval \<Rightarrow> accessor \<Rightarrow> js_error + jsval" where
  "access v (Prop k) = get_prop v k"
| "access v Index0 = get_index0 v"

fun walk :: "jsval \<Rightarrow> accessor list \<Rightarrow> js_error + jsval" where
  "walk v [] = Inr v"
| "walk v (a # as) = (case access v a of Inl e \<Rightarrow> Inl e | Inr w \<Rightarrow> walk w as)"

text \<open>
  ToString, as a template literal applies it. A primitive converts directly. An array
  joins the conversions of its elements with commas, \<open>undefined\<close> and \<open>null\<close> elements
  giving the empty text; the first element whose conversion throws ends the join. A
  plain object is first converted to a primitive: without an own \<open>toString\<close> property
  the inherited method gives \<open>[object Object]\<close>; with one (a data value, so not
  callable) the inherited \<open>valueOf\<close> returns the object itself and the conversion
  throws a TypeError.
\<close>

fun join_comma :: "string list \<Rightarrow> string" where
  "join_comma [] = []"
| "join_comma [s] = s"
| "join_comma (s # t # ss) = s @ '','' @ join_comma (t # ss)"

fun js_to_string :: "jsval \<Rightarrow> js_error + string"
  and js_to_strings :: "jsval list \<Rightarrow> js_error + string list" where
  "js_to_string JUndefined = Inr ''undefined''"
| "js_to_string JNull = Inr ''null''"
| "js_to_string (JBool b) = Inr (if b then ''true'' else ''false'')"
| "js_to_string (JNum t) = Inr t"
| "js_to_string (JStr s) = Inr s"
| "js_to_string (JArr xs) =
     (case js_to_strings xs of
        Inl err \<Rightarrow> Inl err
      | Inr ss \<Rightarrow> Inr (join_comma ss))"
| "js_to_string (JObj kvs) =
     (if map_of kvs ''toString'' \<noteq> None
      then Inl (JsTypeError ''Cannot convert object to primitive value'')
      else Inr ''[object Object]'')"
| "js_to_strings [] = Inr []"
| "js_to_strings (x # xs) =
     (case (if x = JUndefined \<or> x = JNull then Inr [] else js_to_string x) of
        Inl err \<Rightarrow> Inl err
      | Inr s \<Rightarrow>
          (case js_to_strings xs of
             Inl err \<Rightarrow> Inl err
           | Inr ss \<Rightarrow> Inr (s # ss)))"

text \<open>\<open>String.prototype.split(",")\<close>: the pieces between the commas, in order.\<close>

fun split_comma :: "string \<Rightarrow> string list" where
  "split_comma [] = [[]]"
| "split_comma (c # cs) =
     (if c = CHR '','' then [] # split_comma cs
      else (case split_comma cs of
              [] \<Rightarrow> [[c]]
            | p # ps \<Rightarrow> (c # p) # ps))"

text \<open>
  \<open>Buffer.from(bytes).toString("base64")\<close>: three bytes give four characters of the
  standard alphabet, a last group of one or two bytes is padded with \<open>=\<close>.
\<close>

type_synonym byte = "8 word"

definition b64_alphabet :: string where
  "b64_alphabet = ''ABCDEFGHIJKLMNOPQRSTUVWXYZabcdefghijklmnopqrstuvwxyz0123456789+/''"

definition b64_char :: "nat \<Rightarrow> char" where
  "b64_char n = b64_alphabet ! (n mod 64)"

fun base64 :: "byte list \<Rightarrow> string" where
  "base64 [] = []"
| "base64 [a] =
     (let n = unat a * 65536
      in [b64_char (n div 262144), b64_char (n div 4096)] @ ''=='')"
| "base64 [a, b] =
     (let n = unat a * 65536 + unat b * 256
      in [b64_char (n div 262144), b64_char (n div 4096), b64_char (n div 64)] @ ''='')"
| "base64 (a # b # c # rest) =
     (let n = unat a * 65536 + unat b * 256 + unat c
      in [b64_char (n div 262144), b64_char (n div 4096), b64_char (n div 64), b64_char n]
         @ base64 rest)"

text \<open>Decimal rendering of a non-negative integer, as \<open>${Date.now()}\<close> gives it.\<close>

function show_nat :: "nat \<Rightarrow> string" where
  "show_nat n =
     (if n < 10 then [''0123456789'' ! n]
      else show_nat (n div 10) @ [''0123456789'' ! (n mod 10)])"
  by pat_completeness auto
termination
  by (relation "measure id") auto

declare show_nat.simps [simp del]

section \<open>Requests, responses, environment and effects\<close>

record request =
  req_method :: string
  req_body :: jsval

record response =
  status :: nat
  json :: jsval

text \<open>
  What the handler reads of the value \<open>fetch\<close> resolves to: \<open>ok\<close>, \<open>statusText\<close>,
  the outcome of \<open>arrayBuffer()\<close> (reading the body can reject) and
  \<open>headers.get("content-type")\<close> (\<open>null\<close>, here \<open>None\<close>, when the header is absent).
\<close>

record fetch_response =
  ok :: bool
  statusText :: string
  arrayBuffer :: "js_error + byte list"
  content_type :: "string option"

text \<open>One element of the multi-part content array sent to the provider.\<close>

datatype part =
    Text jsval
  | InlineData (mimeType: string) (data: string)

text \<open>
  The world around one invocation: the two environment variables read, the clock, and
  the two outbound calls, each either rejecting with an error or resolving to a value.
  The provider call is given the API key the client was constructed with, the model
  name selected and the content array.
\<close>

record env =
  GOOGLE_API_KEY :: "string option"
  NODE_ENV :: "string option"
  date_now :: nat
  fetch :: "jsval \<Rightarrow> js_error + fetch_response"
  generateContent :: "jsval \<Rightarrow> string \<Rightarrow> part list \<Rightarrow> js_error + jsval"

text \<open>A variable of \<open>process.env\<close> is a string or \<open>undefined\<close>.\<close>

fun env_value :: "string option \<Rightarrow> jsval" where
  "env_value None = JUndefined"
| "env_value (Some s) = JStr s"

text \<open>
  The effects of an invocation, in the order they happen: the outbound fetch, the
  provider call, a line written by \<open>console.error\<close>, and a timer wait.
\<close>

datatype logged = LogText string | LogError js_error

datatype event =
    Fetch jsval
  | ProviderCall jsval string "part list"
  | ConsoleError string logged
  | SetTimeout nat

text \<open>
  An invocation either sends a response or lets an exception escape (the promise the
  async function returns rejects, and the handler itself has sent nothing).
\<close>

datatype outcome = Responded response | Threw js_error

definition error_body :: "string \<Rightarrow> jsval" where
  "error_body msg = JObj [(''error'', JStr msg)]"

text \<open>
  \<open>const { userPhoto, productImage, prompt } = req.body\<close>: destructuring
  \<open>undefined\<close> or \<open>null\<close> throws a TypeError; any other value yields its three
  properties, \<open>undefined\<close> for one it does not have.
\<close>

definition destructure :: "jsval \<Rightarrow> js_error + (jsval \<times> jsval \<times> jsval)" where
  "destructure b =
     (if b = JUndefined \<or> b = JNull
      then Inl (JsTypeError (''Cannot destructure property '' @ [CHR 0x27] @ ''userPhoto''
                             @ [CHR 0x27] @ '' of '' @ [CHR 0x27] @ ''req.body'' @ [CHR 0x27]
                             @ '' as it is '' @ nullish_name b @ ''.''))
      else Inr (own_prop b ''userPhoto'', own_prop b ''productImage'', own_prop b ''prompt''))"

section \<open>The Gemini handler (api/generateImage.js)\<close>

text \<open>
  \<open>userPhoto.split(",")[1] || userPhoto\<close>. Only a string has a \<open>split\<close> method;
  on any other truthy value the call throws a TypeError.
\<close>

definition user_base64 :: "jsval \<Rightarrow> js_error + string" where
  "user_base64 userPhoto =
     (case userPhoto of
        JStr s \<Rightarrow>
          Inr (case split_comma s of
                 p0 # p1 # ps \<Rightarrow> if p1 \<noteq> [] then p1 else s
               | _ \<Rightarrow> s)
      | JUndefined \<Rightarrow> Inl (JsTypeError
          (''Cannot read properties of undefined (reading '' @ [CHR 0x27] @ ''split'' @ [CHR 0x27] @ '')''))
      | JNull \<Rightarrow> Inl (JsTypeError
          (''Cannot read properties of null (reading '' @ [CHR 0x27] @ ''split'' @ [CHR 0x27] @ '')''))
      | _ \<Rightarrow> Inl (JsTypeError ''userPhoto.split is not a function''))"

text \<open>\<open>productResponse.headers.get("content-type") || "image/png"\<close>.\<close>

definition product_mime :: "fetch_response \<Rightarrow> string" where
  "product_mime r =
     (case content_type r of
        None \<Rightarrow> ''image/png''
      | Some t \<Rightarrow> if t \<noteq> [] then t else ''image/png'')"

text \<open>\<open>result.response.candidates[0].content.parts[0].inlineData.data\<close>.\<close>

definition generated_path :: "accessor list" where
  "generated_path =
     [Prop ''response'', Prop ''candidates'', Index0, Prop ''content'', Prop ''parts'',
      Index0, Prop ''inlineData'', Prop ''data'']"

definition model_name :: string where
  "model_name = ''gemini-1.5-flash''"

definition generic_message :: string where
  "generic_message = ''Failed to generate try-on image. Please try again or check logs.''"

text \<open>
  The body of the \<open>try\<close> block, with the effects it performs up to the point where it
  returns a response (\<open>Inr\<close>) or throws (\<open>Inl\<close>). Constructing the client and selecting
  the model are local object constructions: they perform no I/O and do not throw. The
  template literal that builds the URL converts the generated value to a string, which
  can throw.
\<close>

definition try_block ::
  "env \<Rightarrow> jsval \<Rightarrow> jsval \<Rightarrow> jsval \<Rightarrow> jsval \<Rightarrow> event list \<times> (js_error + response)" where
  "try_block e apiKey userPhoto productImage prompt =
     (case fetch e productImage of
        Inl err \<Rightarrow> ([Fetch productImage], Inl err)
      | Inr productResponse \<Rightarrow>
          if \<not> ok productResponse
          then ([Fetch productImage],
                Inl (JsError (''Failed to fetch product image: '' @ statusText productResponse)))
          else
            (case arrayBuffer productResponse of
               Inl err \<Rightarrow> ([Fetch productImage], Inl err)
             | Inr productBuffer \<Rightarrow>
                 let productBase64 = base64 productBuffer;
                     productMimeType = product_mime productResponse
                 in (case user_base64 userPhoto of
                       Inl err \<Rightarrow> ([Fetch productImage], Inl err)
                     | Inr userBase64 \<Rightarrow>
                         let content = [Text prompt,
                                        InlineData ''image/jpeg'' userBase64,
                                        InlineData productMimeType productBase64];
                             tr = [Fetch productImage, ProviderCall apiKey model_name content]
                         in (case generateContent e apiKey model_name content of
                               Inl err \<Rightarrow> (tr, Inl err)
                             | Inr result \<Rightarrow>
                                 (case walk result generated_path of
                                    Inl err \<Rightarrow> (tr, Inl err)
                                  | Inr generatedBase64 \<Rightarrow>
                                      if js_not generatedBase64
                                      then (tr, Inl (JsError ''No generated image in Gemini response''))
                                      else
                                        (case js_to_string generatedBase64 of
                                           Inl err \<Rightarrow> (tr, Inl err)
                                         | Inr text \<Rightarrow>
                                             let generatedImageUrl =
                                                   ''data:image/png;base64,'' @ text
                                             in (tr, Inr \<lparr>status = 200,
                                                          json = JObj [(''generatedImageUrl'',
                                                            JStr generatedImageUrl)]\<rparr>)))))))"

text \<open>\<open>error.message || error\<close>, the second argument of \<open>console.error\<close>.\<close>

definition log_detail :: "js_error \<Rightarrow> logged" where
  "log_detail err = (if message err \<noteq> [] then LogText (message err) else LogError err)"

definition handler :: "env \<Rightarrow> request \<Rightarrow> event list \<times> outcome" where
  "handler e req =
     (if req_method req \<noteq> ''POST''
      then ([], Responded \<lparr>status = 405, json = error_body ''Method not allowed''\<rparr>)
      else
        (case destructure (req_body req) of
           Inl err \<Rightarrow> ([], Threw err)
         | Inr (userPhoto, productImage, prompt) \<Rightarrow>
             if js_not userPhoto \<or> js_not productImage \<or> js_not prompt
             then ([], Responded \<lparr>status = 400, json = error_body
                     ''Missing required fields: userPhoto, productImage, or prompt''\<rparr>)
             else
               (let apiKey = env_value (GOOGLE_API_KEY e)
                in if js_not apiKey
                   then ([], Responded \<lparr>status = 500,
                                         json = error_body ''Google API key not configured''\<rparr>)
                   else
                     (case try_block e apiKey userPhoto productImage prompt of
                        (tr, Inr r) \<Rightarrow> (tr, Responded r)
                      | (tr, Inl err) \<Rightarrow>
                          (tr @ [ConsoleError ''Error in image generation:'' (log_detail err)],
                           Responded \<lparr>status = 500, json = error_body generic_message\<rparr>)))))"

section \<open>The mocked handler (the second implementation of the endpoint)\<close>

text \<open>
  Nothing inside its \<open>try\<close> block can throw, so its \<open>catch\<close> branch (log, then 500
  with \<open>Failed to generate image\<close>) is never taken.
\<close>

definition mock_url :: "env \<Rightarrow> string" where
  "mock_url e =
     (if NODE_ENV e = Some ''development''
      then ''https://via.placeholder.com/300?text=Try-On+Preview''
      else ''https://your-domain.com/generated/'' @ show_nat (date_now e) @ ''.jpg'')"

definition handler_mock :: "env \<Rightarrow> request \<Rightarrow> event list \<times> outcome" where
  "handler_mock e req =
     (if req_method req \<noteq> ''POST''
      then ([], Responded \<lparr>status = 405, json = error_body ''Method not allowed''\<rparr>)
      else
        (case destructure (req_body req) of
           Inl err \<Rightarrow> ([], Threw err)
         | Inr (userPhoto, productImage, prompt) \<Rightarrow>
             if js_not userPhoto \<or> js_not productImage \<or> js_not prompt
             then ([], Responded \<lparr>status = 400, json = error_body
                     ''Missing required fields (userPhoto, productImage, prompt)''\<rparr>)
             else
               (let generatedImageUrl = mock_url e
                in ([SetTimeout 2000],
                    Responded \<lparr>status = 200,
                               json = JObj [(''generatedImageUrl'', JStr generatedImageUrl)]\<rparr>))))"


section \<open>Observations and sample invocations\<close>

text \<open>The HTTP status an invocation answered with, if it answered at all.\<close>

fun status_of :: "outcome \<Rightarrow> nat option" where
  "status_of (Responded r) = Some (status r)"
| "status_of (Threw err) = None"

text \<open>One text contains another: the second occurs in the first as a contiguous piece.\<close>

fun contains_text :: "string \<Rightarrow> string \<Rightarrow> bool" where
  "contains_text [] sub = (sub = [])"
| "contains_text (c # cs) sub = (take (length sub) (c # cs) = sub \<or> contains_text cs sub)"

text \<open>
  Two readings of the user-photo payload, to be compared with \<open>user_base64\<close>. The first
  follows the wording "the substring after the first comma when that substring is
  non-empty, and the entire string otherwise". The second takes only the piece between
  the first comma and the next one (or the end of the string).
\<close>

definition payload_after_first_comma :: "string \<Rightarrow> string" where
  "payload_after_first_comma s =
     (let rest = tl (dropWhile (\<lambda>c. c \<noteq> CHR '','') s)
      in if rest \<noteq> [] then rest else s)"

definition second_piece_or_whole :: "string \<Rightarrow> string" where
  "second_piece_or_whole s =
     (let piece = takeWhile (\<lambda>c. c \<noteq> CHR '','') (tl (dropWhile (\<lambda>c. c \<noteq> CHR '','') s))
      in if piece \<noteq> [] then piece else s)"

text \<open>
  A well-formed request, as the repository's documentation gives it, and a world in
  which the key is configured, the product image is reachable and the provider answers
  with an inline image. The variations used below change one field of it at a time.
\<close>

definition sample_body :: jsval where
  "sample_body = JObj [(''userPhoto'', JStr ''data:image/jpeg;base64,/9j/4AAQ''),
                       (''productImage'', JStr ''https://example.com/product.jpg''),
                       (''prompt'', JStr ''Show how this dress would look on the person'')]"

definition sample_request :: request where
  "sample_request = \<lparr>req_method = ''POST'', req_body = sample_body\<rparr>"

definition no_body_request :: request where
  "no_body_request = \<lparr>req_method = ''POST'', req_body = JUndefined\<rparr>"

definition ok_response :: fetch_response where
  "ok_response = \<lparr>ok = True, statusText = ''OK'', arrayBuffer = Inr [77, 97, 110],
                   content_type = Some ''image/jpeg''\<rparr>"

definition not_found_response :: fetch_response where
  "not_found_response = \<lparr>ok = False, statusText = ''Not Found'', arrayBuffer = Inr [],
                          content_type = None\<rparr>"

definition provider_result :: "jsval \<Rightarrow> jsval" where
  "provider_result first_part =
     JObj [(''response'', JObj [(''candidates'',
        JArr [JObj [(''content'', JObj [(''parts'', JArr [first_part])])]])])]"

definition image_part :: jsval where
  "image_part = JObj [(''inlineData'',
      JObj [(''mimeType'', JStr ''image/png''), (''data'', JStr ''iVBORw0KGgo='')])]"

definition text_part :: jsval where
  "text_part = JObj [(''text'', JStr ''The blue summer dress would look excellent on the person'')]"

definition sample_env :: env where
  "sample_env = \<lparr>GOOGLE_API_KEY = Some ''test-key'', NODE_ENV = Some ''production'',
                  date_now = 1203,
                  fetch = (\<lambda>u. Inr ok_response),
                  generateContent = (\<lambda>k m c. Inr (provider_result image_part))\<rparr>"

text \<open>The provider answers with a text part only (no inline image).\<close>

definition text_env :: env where
  "text_env = sample_env\<lparr>generateContent := (\<lambda>k m c. Inr (provider_result text_part))\<rparr>"

text \<open>The provider answers with no candidate at all, as for a blocked prompt.\<close>

definition blocked_env :: env where
  "blocked_env = sample_env\<lparr>generateContent :=
     (\<lambda>k m c. Inr (JObj [(''response'', JObj [(''candidates'', JArr [])])]))\<rparr>"

text \<open>
  The provider answers with an inline part whose \<open>data\<close> is an object with an own
  \<open>toString\<close> property.
\<close>

definition unprintable_env :: env where
  "unprintable_env = sample_env\<lparr>generateContent :=
     (\<lambda>k m c. Inr (provider_result
        (JObj [(''inlineData'', JObj [(''data'', JObj [(''toString'', JNum ''1'')])])])))\<rparr>"

text \<open>The product image answers 404.\<close>

definition not_found_env :: env where
  "not_found_env = sample_env\<lparr>fetch := (\<lambda>u. Inr not_found_response)\<rparr>"

text \<open>The product image answers with a failure status whose reason phrase is \<open>Failed\<close>.\<close>

definition failed_response :: fetch_response where
  "failed_response = \<lparr>ok = False, statusText = ''Failed'', arrayBuffer = Inr [],
                       content_type = None\<rparr>"

definition failed_env :: env where
  "failed_env = sample_env\<lparr>fetch := (\<lambda>u. Inr failed_response)\<rparr>"

text \<open>No API key in the process environment.\<close>

definition no_key_env :: env where
  "no_key_env = sample_env\<lparr>GOOGLE_API_KEY := None\<rparr>"

text \<open>A request whose \<open>userPhoto\<close> is the number 1: truthy, but not a string.\<close>

definition numeric_photo_request :: request where
  "numeric_photo_request =
     \<lparr>req_method = ''POST'',
      req_body = JObj [(''userPhoto'', JNum ''1''),
                   (''productImage'', JStr ''https://example.com/product.jpg''),
                   (''prompt'', JStr ''Show how this dress would look on the person'')]\<rparr>"

text \<open>A request whose user photo is a data URL that declares the PNG type.\<close>

definition png_photo_request :: request where
  "png_photo_request =
     \<lparr>req_method = ''POST'',
      req_body = JObj [(''userPhoto'', JStr ''data:image/png;base64,iVBORw0KGgo=''),
                       (''productImage'', JStr ''https://example.com/product.jpg''),
                       (''prompt'', JStr ''Show how this dress would look on the person'')]\<rparr>"

text \<open>The content array the Gemini handler builds from the sample request.\<close>

definition sample_content :: "part list" where
  "sample_content =
     [Text (JStr ''Show how this dress would look on the person''),
      InlineData ''image/jpeg'' ''/9j/4AAQ'',
      InlineData ''image/jpeg'' ''TWFu'']"

section \<open>Auxiliary facts\<close>

subsection \<open>The branches of the two handlers\<close>


lemma handler_not_post:
  "req_method req \<noteq> ''POST'' \<Longrightarrow>
   handler e req = ([], Responded \<lparr>status = 405, json = error_body ''Method not allowed''\<rparr>)"
  by (simp add: handler_def)

lemma handler_mock_not_post:
  "req_method req \<noteq> ''POST'' \<Longrightarrow>
   handler_mock e req = ([], Responded \<lparr>status = 405, json = error_body ''Method not allowed''\<rparr>)"
  by (simp add: handler_mock_def)

lemma handler_destructure_error:
  "req_method req = ''POST'' \<Longrightarrow> destructure (req_body req) = Inl err \<Longrightarrow> handler e req = ([], Threw err)"
  by (simp add: handler_def)

lemma handler_mock_destructure_error:
  "req_method req = ''POST'' \<Longrightarrow> destructure (req_body req) = Inl err \<Longrightarrow> handler_mock e req = ([], Threw err)"
  by (simp add: handler_mock_def)

lemma handler_missing_field:
  "req_method req = ''POST'' \<Longrightarrow> destructure (req_body req) = Inr (u, p, q) \<Longrightarrow>
   js_not u \<or> js_not p \<or> js_not q \<Longrightarrow>
   handler e req = ([], Responded \<lparr>status = 400, json = error_body
                      ''Missing required fields: userPhoto, productImage, or prompt''\<rparr>)"
  by (simp add: handler_def)

lemma handler_mock_missing_field:
  "req_method req = ''POST'' \<Longrightarrow> destructure (req_body req) = Inr (u, p, q) \<Longrightarrow>
   js_not u \<or> js_not p \<or> js_not q \<Longrightarrow>
   handler_mock e req = ([], Responded \<lparr>status = 400, json = error_body
                      ''Missing required fields (userPhoto, productImage, prompt)''\<rparr>)"
  by (simp add: handler_mock_def)


lemma handler_no_key:
  "req_method req = ''POST'' \<Longrightarrow> destructure (req_body req) = Inr (u, p, q) \<Longrightarrow>
   truthy u \<Longrightarrow> truthy p \<Longrightarrow> truthy q \<Longrightarrow> js_not (env_value (GOOGLE_API_KEY e)) \<Longrightarrow>
   handler e req = ([], Responded \<lparr>status = 500, json = error_body ''Google API key not configured''\<rparr>)"
  by (simp add: handler_def js_not_def)

lemma handler_try_throws:
  "req_method req = ''POST'' \<Longrightarrow> destructure (req_body req) = Inr (u, p, q) \<Longrightarrow>
   truthy u \<Longrightarrow> truthy p \<Longrightarrow> truthy q \<Longrightarrow> truthy (env_value (GOOGLE_API_KEY e)) \<Longrightarrow>
   try_block e (env_value (GOOGLE_API_KEY e)) u p q = (tr, Inl err) \<Longrightarrow>
   handler e req = (tr @ [ConsoleError ''Error in image generation:'' (log_detail err)],
                    Responded \<lparr>status = 500, json = error_body generic_message\<rparr>)"
  by (simp add: handler_def js_not_def)

lemma handler_try_returns:
  "req_method req = ''POST'' \<Longrightarrow> destructure (req_body req) = Inr (u, p, q) \<Longrightarrow>
   truthy u \<Longrightarrow> truthy p \<Longrightarrow> truthy q \<Longrightarrow> truthy (env_value (GOOGLE_API_KEY e)) \<Longrightarrow>
   try_block e (env_value (GOOGLE_API_KEY e)) u p q = (tr, Inr r) \<Longrightarrow>
   handler e req = (tr, Responded r)"
  by (simp add: handler_def js_not_def)

lemma try_block_fetch_rejects:
  "fetch e p = Inl err \<Longrightarrow> try_block e k u p q = ([Fetch p], Inl err)"
  by (simp add: try_block_def)

lemma try_block_not_ok:
  "fetch e p = Inr r \<Longrightarrow> \<not> ok r \<Longrightarrow>
   try_block e k u p q = ([Fetch p], Inl (JsError (''Failed to fetch product image: '' @ statusText r)))"
  by (simp add: try_block_def)

lemma try_block_body_rejects:
  "fetch e p = Inr r \<Longrightarrow> ok r \<Longrightarrow> arrayBuffer r = Inl err \<Longrightarrow>
   try_block e k u p q = ([Fetch p], Inl err)"
  by (simp add: try_block_def)

lemma try_block_split_throws:
  "fetch e p = Inr r \<Longrightarrow> ok r \<Longrightarrow> arrayBuffer r = Inr bs \<Longrightarrow> user_base64 u = Inl err \<Longrightarrow>
   try_block e k u p q = ([Fetch p], Inl err)"
  by (simp add: try_block_def)

lemma try_block_provider_rejects:
  "fetch e p = Inr r \<Longrightarrow> ok r \<Longrightarrow> arrayBuffer r = Inr bs \<Longrightarrow> user_base64 u = Inr ub \<Longrightarrow>
   c = [Text q, InlineData ''image/jpeg'' ub, InlineData (product_mime r) (base64 bs)] \<Longrightarrow>
   generateContent e k model_name c = Inl err \<Longrightarrow>
   try_block e k u p q = ([Fetch p, ProviderCall k model_name c], Inl err)"
  by (simp add: try_block_def)

lemma try_block_path_throws:
  "fetch e p = Inr r \<Longrightarrow> ok r \<Longrightarrow> arrayBuffer r = Inr bs \<Longrightarrow> user_base64 u = Inr ub \<Longrightarrow>
   c = [Text q, InlineData ''image/jpeg'' ub, InlineData (product_mime r) (base64 bs)] \<Longrightarrow>
   generateContent e k model_name c = Inr result \<Longrightarrow>
   walk result generated_path = Inl err \<Longrightarrow>
   try_block e k u p q = ([Fetch p, ProviderCall k model_name c], Inl err)"
  by (simp add: try_block_def)

lemma try_block_no_content:
  "fetch e p = Inr r \<Longrightarrow> ok r \<Longrightarrow> arrayBuffer r = Inr bs \<Longrightarrow> user_base64 u = Inr ub \<Longrightarrow>
   c = [Text q, InlineData ''image/jpeg'' ub, InlineData (product_mime r) (base64 bs)] \<Longrightarrow>
   generateContent e k model_name c = Inr result \<Longrightarrow>
   walk result generated_path = Inr g \<Longrightarrow> js_not g \<Longrightarrow>
   try_block e k u p q = ([Fetch p, ProviderCall k model_name c],
                          Inl (JsError ''No generated image in Gemini response''))"
  by (simp add: try_block_def)

lemma try_block_template_throws:
  "fetch e p = Inr r \<Longrightarrow> ok r \<Longrightarrow> arrayBuffer r = Inr bs \<Longrightarrow> user_base64 u = Inr ub \<Longrightarrow>
   c = [Text q, InlineData ''image/jpeg'' ub, InlineData (product_mime r) (base64 bs)] \<Longrightarrow>
   generateContent e k model_name c = Inr result \<Longrightarrow>
   walk result generated_path = Inr g \<Longrightarrow> truthy g \<Longrightarrow> js_to_string g = Inl err \<Longrightarrow>
   try_block e k u p q = ([Fetch p, ProviderCall k model_name c], Inl err)"
  by (simp add: try_block_def js_not_def)

lemma try_block_success:
  "fetch e p = Inr r \<Longrightarrow> ok r \<Longrightarrow> arrayBuffer r = Inr bs \<Longrightarrow> user_base64 u = Inr ub \<Longrightarrow>
   c = [Text q, InlineData ''image/jpeg'' ub, InlineData (product_mime r) (base64 bs)] \<Longrightarrow>
   generateContent e k model_name c = Inr result \<Longrightarrow>
   walk result generated_path = Inr g \<Longrightarrow> truthy g \<Longrightarrow> js_to_string g = Inr t \<Longrightarrow>
   try_block e k u p q = ([Fetch p, ProviderCall k model_name c],
      Inr \<lparr>status = 200, json = JObj [(''generatedImageUrl'',
                 JStr (''data:image/png;base64,'' @ t))]\<rparr>)"
  by (simp add: try_block_def js_not_def)


lemma try_block_returns:
  "try_block e k u p q = (tr, Inr r) \<Longrightarrow>
   status r = 200 \<and> (\<exists>c. tr = [Fetch p, ProviderCall k model_name c])"
  by (auto simp: try_block_def Let_def split: sum.splits if_splits)


lemma try_block_provider_content:
  "ProviderCall k' m c \<in> set (fst (try_block e k u p q)) \<Longrightarrow>
   \<exists>ub pm pd. user_base64 u = Inr ub \<and> c = [Text q, InlineData ''image/jpeg'' ub, InlineData pm pd]"
  by (auto simp: try_block_def Let_def split: sum.splits if_splits)

text \<open>A chain of property reads can only fail with a TypeError.\<close>

lemma walk_error_is_type_error:
  "walk v as = Inl err \<Longrightarrow> \<exists>m. err = JsTypeError m"
proof (induction as arbitrary: v)
  case Nil
  then show ?case by simp
next
  case (Cons a as)
  show ?case
  proof (cases "access v a")
    case (Inl e')
    with Cons.prems have "err = e'" by simp
    with Inl show ?thesis
      by (cases a) (auto simp: get_prop_def get_index0_def split: if_splits)
  next
    case (Inr w)
    with Cons.prems have "walk w as = Inl err" by simp
    then show ?thesis by (rule Cons.IH)
  qed
qed

subsection \<open>Unfolding the definitions on concrete inputs\<close>

lemmas sample_defs = sample_request_def sample_body_def sample_env_def ok_response_def
  provider_result_def image_part_def text_part_def not_found_response_def no_body_request_def
  text_env_def blocked_env_def unprintable_env_def not_found_env_def no_key_env_def
  failed_env_def failed_response_def
  numeric_photo_request_def png_photo_request_def

lemmas eval_defs = handler_def handler_mock_def try_block_def destructure_def js_not_def
  error_body_def user_base64_def product_mime_def generated_path_def model_name_def
  get_prop_def get_index0_def log_detail_def b64_char_def b64_alphabet_def mock_url_def


subsection \<open>Splitting at commas\<close>

lemma split_comma_not_Nil: "split_comma s \<noteq> []"
  by (induction s) (auto split: list.splits)

lemma split_comma_no_comma: "CHR '','' \<notin> set s \<Longrightarrow> split_comma s = [s]"
  by (induction s) auto

lemma split_comma_unfold:
  "split_comma s =
     takeWhile (\<lambda>c. c \<noteq> CHR '','') s #
       (if CHR '','' \<in> set s then split_comma (tl (dropWhile (\<lambda>c. c \<noteq> CHR '','') s)) else [])"
proof (induction s)
  case Nil
  show ?case by simp
next
  case (Cons c cs)
  show ?case
  proof (cases "c = CHR '',''")
    case True
    then show ?thesis by simp
  next
    case False
    obtain p ps where sp: "split_comma cs = p # ps"
      using split_comma_not_Nil [of cs] by (cases "split_comma cs") auto
    with Cons.IH have "p = takeWhile (\<lambda>c. c \<noteq> CHR '','') cs"
      and "ps = (if CHR '','' \<in> set cs then split_comma (tl (dropWhile (\<lambda>c. c \<noteq> CHR '','') cs)) else [])"
      by simp_all
    with False sp show ?thesis by simp
  qed
qed

lemma user_base64_string: "user_base64 (JStr s) = Inr (second_piece_or_whole s)"
proof (cases "CHR '','' \<in> set s")
  case False
  then have dw: "dropWhile (\<lambda>c. c \<noteq> CHR '','') s = []" by (auto simp: dropWhile_eq_Nil_conv)
  show ?thesis
    unfolding user_base64_def second_piece_or_whole_def dw
    using False by (simp add: split_comma_no_comma)
next
  case True
  define rest where "rest = tl (dropWhile (\<lambda>c. c \<noteq> CHR '','') s)"
  have s: "split_comma s = takeWhile (\<lambda>c. c \<noteq> CHR '','') s # split_comma rest"
    using True split_comma_unfold [of s] by (simp add: rest_def)
  obtain ps where r: "split_comma rest = takeWhile (\<lambda>c. c \<noteq> CHR '','') rest # ps"
    using split_comma_unfold [of rest] by simp
  show ?thesis
    unfolding user_base64_def second_piece_or_whole_def
    by (simp add: s r rest_def [symmetric] Let_def)
qed

lemma one_comma_payload:
  "length (filter (\<lambda>c. c = CHR '','') s) \<le> 1 \<Longrightarrow>
   second_piece_or_whole s = payload_after_first_comma s"
proof -
  assume a: "length (filter (\<lambda>c. c = CHR '','') s) \<le> 1"
  define rest where "rest = tl (dropWhile (\<lambda>c. c \<noteq> CHR '','') s)"
  have "CHR '','' \<notin> set rest"
  proof (cases "dropWhile (\<lambda>c. c \<noteq> CHR '','') s")
    case Nil
    show ?thesis unfolding rest_def Nil by simp
  next
    case (Cons x xs)
    then have x: "x = CHR '',''" using hd_dropWhile [of "\<lambda>c. c \<noteq> CHR '',''" s] by auto
    have "s = takeWhile (\<lambda>c. c \<noteq> CHR '','') s @ x # xs"
      using Cons takeWhile_dropWhile_id [of "\<lambda>c. c \<noteq> CHR '',''" s] by simp
    then have s_eq: "takeWhile (\<lambda>c. c \<noteq> CHR '','') s @ x # xs = s" by simp
    from a have "length (filter (\<lambda>c. c = CHR '','') (takeWhile (\<lambda>c. c \<noteq> CHR '','') s @ x # xs)) \<le> 1"
      by (simp only: s_eq)
    with x have "filter (\<lambda>c. c = CHR '','') xs = []" by simp
    then have "CHR '','' \<notin> set xs" by (auto simp: filter_empty_conv)
    with Cons show ?thesis by (simp add: rest_def)
  qed
  then have tw: "takeWhile (\<lambda>c. c \<noteq> CHR '','') rest = rest"
    by (auto simp: takeWhile_eq_all_conv)
  show ?thesis
    unfolding second_piece_or_whole_def payload_after_first_comma_def rest_def [symmetric] tw
    by simp
qed


subsection \<open>The sample request\<close>

lemma sample_request_post: "req_method sample_request = ''POST''"
  by (simp add: sample_request_def)

lemma sample_request_fields:
  "destructure (req_body sample_request) =
     Inr (JStr ''data:image/jpeg;base64,/9j/4AAQ'', JStr ''https://example.com/product.jpg'',
          JStr ''Show how this dress would look on the person'')"
  by (simp add: sample_request_def sample_body_def destructure_def)


subsection \<open>Statuses and effects of whole invocations\<close>











lemma handler_success:
  assumes "req_method req = ''POST''" and "destructure (req_body req) = Inr (u, p, q)"
    and "truthy u" and "truthy p" and "truthy q"
    and "truthy (env_value (GOOGLE_API_KEY e))"
    and "fetch e p = Inr r" and "ok r" and "arrayBuffer r = Inr bs"
    and "user_base64 u = Inr ub"
    and "c = [Text q, InlineData ''image/jpeg'' ub, InlineData (product_mime r) (base64 bs)]"
    and "generateContent e (env_value (GOOGLE_API_KEY e)) model_name c = Inr result"
    and "walk result generated_path = Inr g" and "truthy g" and "js_to_string g = Inr t"
  shows "handler e req =
           ([Fetch p, ProviderCall (env_value (GOOGLE_API_KEY e)) model_name c],
            Responded \<lparr>status = 200,
                        json = JObj [(''generatedImageUrl'',
                                      JStr (''data:image/png;base64,'' @ t))]\<rparr>)"
proof -
  have "try_block e (env_value (GOOGLE_API_KEY e)) u p q =
      ([Fetch p, ProviderCall (env_value (GOOGLE_API_KEY e)) model_name c],
       Inr \<lparr>status = 200, json = JObj [(''generatedImageUrl'',
                  JStr (''data:image/png;base64,'' @ t))]\<rparr>)"
    using assms(7-15) by (rule try_block_success)
  with assms(1-6) show ?thesis
    by (rule handler_try_returns)
qed



lemma user_base64_Inr: "user_base64 u = Inr ub \<Longrightarrow> \<exists>s. u = JStr s"
  by (cases u) (simp_all add: user_base64_def)

lemma handler_provider_content:
  assumes "ProviderCall k m c \<in> set (fst (handler e req))"
  shows "\<exists>s pm pd. own_prop (req_body req) ''userPhoto'' = JStr s
           \<and> c = [Text (own_prop (req_body req) ''prompt''),
                    InlineData ''image/jpeg'' (second_piece_or_whole s), InlineData pm pd]"
proof -
  let ?u = "own_prop (req_body req) ''userPhoto''"
  let ?p = "own_prop (req_body req) ''productImage''"
  let ?q = "own_prop (req_body req) ''prompt''"
  let ?k = "env_value (GOOGLE_API_KEY e)"
  from assms have "ProviderCall k m c \<in> set (fst (try_block e ?k ?u ?p ?q))"
    by (auto simp: handler_def destructure_def Let_def split: sum.splits prod.splits if_splits)
  then obtain ub pm pd where ub: "user_base64 ?u = Inr ub"
    and c: "c = [Text ?q, InlineData ''image/jpeg'' ub, InlineData pm pd]"
    using try_block_provider_content by blast
  from ub obtain s where s: "?u = JStr s"
    using user_base64_Inr by blast
  with ub have "ub = second_piece_or_whole s"
    by (simp add: user_base64_string)
  with c s show ?thesis by simp
qed

subsection \<open>The sample invocation, step by step\<close>

lemma sample_key: "truthy (env_value (GOOGLE_API_KEY sample_env))"
  by (simp add: sample_env_def)

lemma sample_fetch: "fetch sample_env u = Inr ok_response"
  by (simp add: sample_env_def)

lemma sample_ok: "ok ok_response"
  by (simp add: ok_response_def)

lemma sample_buffer: "arrayBuffer ok_response = Inr [77, 97, 110]"
  by (simp add: ok_response_def)

lemma sample_payload: "user_base64 (JStr ''data:image/jpeg;base64,/9j/4AAQ'') = Inr ''/9j/4AAQ''"
  by (simp add: user_base64_def)

lemma sample_content_eq:
  "sample_content =
     [Text (JStr ''Show how this dress would look on the person''),
      InlineData ''image/jpeg'' ''/9j/4AAQ'',
      InlineData (product_mime ok_response) (base64 [77, 97, 110])]"
  by (simp add: sample_content_def product_mime_def ok_response_def b64_char_def b64_alphabet_def)


section \<open>The claims\<close>

subsection \<open>Method check\<close>

text \<open>
  Claim C4. For every request whose method is not POST, each of the two handlers
  answers 405 with the body \<open>{ error: "Method not allowed" }\<close>, whatever the request
  body holds (also none at all), and performs no effect: its trace is empty, so there is
  neither a product-image fetch nor a provider call.
\<close>

theorem non_post_405:
  assumes "req_method req \<noteq> ''POST''"
  shows "handler e req =
           ([], Responded \<lparr>status = 405, json = JObj [(''error'', JStr ''Method not allowed'')]\<rparr>)
       \<and> handler_mock e req =
           ([], Responded \<lparr>status = 405, json = JObj [(''error'', JStr ''Method not allowed'')]\<rparr>)"
  using assms by (simp add: handler_not_post handler_mock_not_post error_body_def)

theorem non_post_405_witness:
  "handler sample_env (sample_request\<lparr>req_method := ''GET''\<rparr>) =
     ([], Responded \<lparr>status = 405, json = JObj [(''error'', JStr ''Method not allowed'')]\<rparr>)
   \<and> handler_mock sample_env (sample_request\<lparr>req_method := ''GET''\<rparr>) =
     ([], Responded \<lparr>status = 405, json = JObj [(''error'', JStr ''Method not allowed'')]\<rparr>)"
  by (rule non_post_405) simp

subsection \<open>Field validation and the absent body\<close>

text \<open>
  Claim C9. For a POST request whose body is \<open>undefined\<close> or \<open>null\<close>, both handlers
  throw a TypeError at the destructuring of the body. The exception escapes the handler:
  the trace is empty (nothing was caught and logged, no call was made) and no response,
  neither the 400 nor any other, is sent.
\<close>

theorem absent_body_throws:
  assumes "req_method req = ''POST''" and "req_body req = JUndefined \<or> req_body req = JNull"
  shows "\<exists>m. handler e req = ([], Threw (JsTypeError m))
           \<and> handler_mock e req = ([], Threw (JsTypeError m))"
proof -
  from assms(2) obtain m where "destructure (req_body req) = Inl (JsTypeError m)"
    by (auto simp: destructure_def)
  with assms(1) show ?thesis
    by (auto simp: handler_destructure_error handler_mock_destructure_error)
qed

theorem absent_body_throws_witness:
  "\<exists>m. handler sample_env (sample_request\<lparr>req_body := JNull\<rparr>) = ([], Threw (JsTypeError m))
      \<and> handler_mock sample_env (sample_request\<lparr>req_body := JNull\<rparr>) = ([], Threw (JsTypeError m))"
  by (rule absent_body_throws) (simp_all add: sample_defs)

text \<open>
  Claim C3 says that every POST request in which any of the three fields is absent is
  answered with 400. A POST request that carries no body has all three fields absent,
  yet at that input each handler throws at the destructuring and answers nothing: the
  field check, which would have produced the 400, is never reached.
\<close>

theorem no_body_no_400:
  "handler e no_body_request =
     ([], Threw (JsTypeError (''Cannot destructure property '' @ [CHR 0x27] @ ''userPhoto''
                   @ [CHR 0x27] @ '' of '' @ [CHR 0x27] @ ''req.body'' @ [CHR 0x27]
                   @ '' as it is undefined.'')))
   \<and> handler_mock e no_body_request = handler e no_body_request
   \<and> status_of (snd (handler e no_body_request)) \<noteq> Some 400
   \<and> status_of (snd (handler_mock e no_body_request)) \<noteq> Some 400"
  by (simp add: no_body_request_def handler_def handler_mock_def destructure_def)

subsection \<open>Credential check\<close>

text \<open>
  Claim C5. For every POST request with all three fields truthy, when the API key is
  not in the process environment (the variable is unset or empty), the Gemini handler
  answers 500 and its trace is empty: the product image is not fetched and the provider
  is not called.
\<close>

theorem missing_key_500:
  assumes "req_method req = ''POST''" and "destructure (req_body req) = Inr (u, p, q)"
    and "truthy u" and "truthy p" and "truthy q"
    and "GOOGLE_API_KEY e = None \<or> GOOGLE_API_KEY e = Some ''''"
  shows "handler e req =
           ([], Responded \<lparr>status = 500,
                             json = JObj [(''error'', JStr ''Google API key not configured'')]\<rparr>)"
proof -
  from assms(6) have "js_not (env_value (GOOGLE_API_KEY e))"
    by (auto simp: js_not_def)
  with assms(1-5) show ?thesis
    by (simp add: handler_no_key error_body_def)
qed

theorem missing_key_500_witness:
  "handler no_key_env sample_request =
     ([], Responded \<lparr>status = 500,
                       json = JObj [(''error'', JStr ''Google API key not configured'')]\<rparr>)"
  by (rule missing_key_500 [OF sample_request_post sample_request_fields])
     (simp_all add: no_key_env_def)

subsection \<open>Errors inside the try block\<close>

text \<open>
  Claim C1 says that the missing-credential outcome carries the same fixed message as
  every other server error and is caught and logged like them. At the sample request
  with no key configured the handler answers 500 with the message
  \<open>Google API key not configured\<close>, which is not the generic message, and its trace
  holds no \<open>console.error\<close> line.
\<close>

theorem missing_key_counterexample:
  "handler no_key_env sample_request =
     ([], Responded \<lparr>status = 500,
                       json = JObj [(''error'', JStr ''Google API key not configured'')]\<rparr>)
   \<and> ''Google API key not configured'' \<noteq> generic_message
   \<and> snd (handler no_key_env sample_request) \<noteq>
       Responded \<lparr>status = 500, json = JObj [(''error'', JStr generic_message)]\<rparr>"
  by (simp add: sample_defs eval_defs generic_message_def)

text \<open>
  Claim C1, as the code has it. For every POST request with all three fields truthy:
  \<^item> when no API key is configured the handler answers 500 with the message
    \<open>Google API key not configured\<close>, before the try block, with nothing logged;
  \<^item> when a key is configured and the try block (product-image fetch, payload
    assembly, provider call, response mapping) throws an error, the handler catches it,
    writes one \<open>console.error\<close> line carrying the error's message after the effects
    performed so far, and answers 500 with the one generic message, which does not
    depend on the error;
  \<^item> when a key is configured, every answer with status 500 arises in that way.
\<close>

theorem server_errors_500:
  assumes "req_method req = ''POST''" and "destructure (req_body req) = Inr (u, p, q)"
    and "truthy u" and "truthy p" and "truthy q"
  shows "(js_not (env_value (GOOGLE_API_KEY e)) \<longrightarrow>
            handler e req =
              ([], Responded \<lparr>status = 500,
                                json = JObj [(''error'', JStr ''Google API key not configured'')]\<rparr>))
       \<and> (truthy (env_value (GOOGLE_API_KEY e)) \<longrightarrow>
            try_block e (env_value (GOOGLE_API_KEY e)) u p q = (tr, Inl err) \<longrightarrow>
            handler e req =
              (tr @ [ConsoleError ''Error in image generation:'' (log_detail err)],
               Responded \<lparr>status = 500, json = JObj [(''error'', JStr generic_message)]\<rparr>))
       \<and> (truthy (env_value (GOOGLE_API_KEY e)) \<longrightarrow>
            status_of (snd (handler e req)) = Some 500 \<longrightarrow>
            snd (handler e req) =
              Responded \<lparr>status = 500, json = JObj [(''error'', JStr generic_message)]\<rparr>
            \<and> (\<exists>tr' err'. try_block e (env_value (GOOGLE_API_KEY e)) u p q = (tr', Inl err')
                  \<and> fst (handler e req) =
                      tr' @ [ConsoleError ''Error in image generation:'' (log_detail err')]))"
proof (intro conjI impI)
  assume "js_not (env_value (GOOGLE_API_KEY e))"
  with assms show "handler e req =
      ([], Responded \<lparr>status = 500,
                        json = JObj [(''error'', JStr ''Google API key not configured'')]\<rparr>)"
    by (simp add: handler_no_key error_body_def)
next
  assume "truthy (env_value (GOOGLE_API_KEY e))"
    and "try_block e (env_value (GOOGLE_API_KEY e)) u p q = (tr, Inl err)"
  with assms show "handler e req =
      (tr @ [ConsoleError ''Error in image generation:'' (log_detail err)],
       Responded \<lparr>status = 500, json = JObj [(''error'', JStr generic_message)]\<rparr>)"
    by (simp add: handler_try_throws error_body_def)
next
  assume k: "truthy (env_value (GOOGLE_API_KEY e))"
    and s: "status_of (snd (handler e req)) = Some 500"
  obtain tr' res where t: "try_block e (env_value (GOOGLE_API_KEY e)) u p q = (tr', res)"
    by (cases "try_block e (env_value (GOOGLE_API_KEY e)) u p q") auto
  have "\<exists>err'. res = Inl err'"
  proof (cases res)
    case (Inl a)
    then show ?thesis by simp
  next
    case (Inr r)
    with t assms k have "handler e req = (tr', Responded r)"
      by (simp add: handler_try_returns)
    moreover from t Inr have "status r = 200"
      using try_block_returns [of e _ u p q tr' r] by simp
    ultimately show ?thesis using s by simp
  qed
  then obtain err' where "res = Inl err'" ..
  with t assms k have h: "handler e req =
      (tr' @ [ConsoleError ''Error in image generation:'' (log_detail err')],
       Responded \<lparr>status = 500, json = error_body generic_message\<rparr>)"
    by (simp add: handler_try_throws)
  from h show "snd (handler e req) =
      Responded \<lparr>status = 500, json = JObj [(''error'', JStr generic_message)]\<rparr>"
    by (simp add: error_body_def)
  from h t \<open>res = Inl err'\<close>
  show "\<exists>tr' err'. try_block e (env_value (GOOGLE_API_KEY e)) u p q = (tr', Inl err')
          \<and> fst (handler e req) =
              tr' @ [ConsoleError ''Error in image generation:'' (log_detail err')]"
    by auto
qed

theorem server_errors_500_witness:
  "handler no_key_env sample_request =
     ([], Responded \<lparr>status = 500,
                       json = JObj [(''error'', JStr ''Google API key not configured'')]\<rparr>)
   \<and> handler not_found_env sample_request =
     ([Fetch (JStr ''https://example.com/product.jpg''),
       ConsoleError ''Error in image generation:''
         (LogText ''Failed to fetch product image: Not Found'')],
      Responded \<lparr>status = 500, json = JObj [(''error'', JStr generic_message)]\<rparr>)"
proof
  have "js_not (env_value (GOOGLE_API_KEY no_key_env))"
    by (simp add: js_not_def no_key_env_def)
  with server_errors_500 [OF sample_request_post sample_request_fields, THEN conjunct1]
  show "handler no_key_env sample_request =
     ([], Responded \<lparr>status = 500,
                       json = JObj [(''error'', JStr ''Google API key not configured'')]\<rparr>)"
    by simp
next
  have k: "truthy (env_value (GOOGLE_API_KEY not_found_env))"
    by (simp add: not_found_env_def sample_env_def)
  have t: "try_block not_found_env (env_value (GOOGLE_API_KEY not_found_env))
             (JStr ''data:image/jpeg;base64,/9j/4AAQ'') (JStr ''https://example.com/product.jpg'')
             (JStr ''Show how this dress would look on the person'') =
           ([Fetch (JStr ''https://example.com/product.jpg'')],
            Inl (JsError ''Failed to fetch product image: Not Found''))"
    by (simp add: try_block_def not_found_env_def not_found_response_def)
  have "handler not_found_env sample_request =
     ([Fetch (JStr ''https://example.com/product.jpg'')] @
        [ConsoleError ''Error in image generation:''
           (log_detail (JsError ''Failed to fetch product image: Not Found''))],
      Responded \<lparr>status = 500, json = JObj [(''error'', JStr generic_message)]\<rparr>)"
    by (rule server_errors_500 [OF sample_request_post sample_request_fields,
          THEN conjunct2, THEN conjunct1, rule_format, OF _ _ _ k t]) simp_all
  then show "handler not_found_env sample_request =
     ([Fetch (JStr ''https://example.com/product.jpg''),
       ConsoleError ''Error in image generation:''
         (LogText ''Failed to fetch product image: Not Found'')],
      Responded \<lparr>status = 500, json = JObj [(''error'', JStr generic_message)]\<rparr>)"
    by (simp add: log_detail_def)
qed

text \<open>
  Claim C6 says that the 500 body does not contain the upstream status text. The body
  is one fixed string, so a status text that happens to occur in that string is
  contained in it: at the sample request, when the product image answers with the
  reason phrase \<open>Failed\<close>, the body's message begins with that very text.
\<close>

theorem status_text_counterexample:
  "handler failed_env sample_request =
     ([Fetch (JStr ''https://example.com/product.jpg''),
       ConsoleError ''Error in image generation:''
         (LogText ''Failed to fetch product image: Failed'')],
      Responded \<lparr>status = 500, json = JObj [(''error'',
         JStr ''Failed to generate try-on image. Please try again or check logs.'')]\<rparr>)
   \<and> statusText failed_response = ''Failed''
   \<and> contains_text ''Failed to generate try-on image. Please try again or check logs.''
         (statusText failed_response)"
  by (simp add: sample_defs eval_defs generic_message_def)

text \<open>
  Claim C6, as the code has it. For every POST request with all three fields truthy and
  a configured key, when the product-image fetch resolves to a response that is not
  \<open>ok\<close> (a status outside 200 to 299), the try block throws, right after the fetch, an
  error whose message is \<open>Failed to fetch product image:\<close> followed by the upstream
  status text; the handler logs that message and answers 500 with the fixed generic
  string as the body's \<open>error\<close>. The status text is not put into the body: had the
  same response carried any other status text, the answer would be the same.
\<close>

theorem fetch_failure_500:
  assumes "req_method req = ''POST''" and "destructure (req_body req) = Inr (u, p, q)"
    and "truthy u" and "truthy p" and "truthy q"
    and "truthy (env_value (GOOGLE_API_KEY e))"
    and "fetch e p = Inr r" and "\<not> ok r"
  shows "try_block e (env_value (GOOGLE_API_KEY e)) u p q =
           ([Fetch p], Inl (JsError (''Failed to fetch product image: '' @ statusText r)))
       \<and> handler e req =
           ([Fetch p,
             ConsoleError ''Error in image generation:''
               (LogText (''Failed to fetch product image: '' @ statusText r))],
            Responded \<lparr>status = 500, json = JObj [(''error'',
               JStr ''Failed to generate try-on image. Please try again or check logs.'')]\<rparr>)
       \<and> snd (handler (e\<lparr>fetch := (fetch e)(p := Inr (r\<lparr>statusText := st\<rparr>))\<rparr>) req) =
           snd (handler e req)"
proof -
  let ?body = "\<lparr>status = 500, json = JObj [(''error'',
                 JStr ''Failed to generate try-on image. Please try again or check logs.'')]\<rparr>"
  have any: "handler e' req =
      ([Fetch p,
        ConsoleError ''Error in image generation:''
          (LogText (''Failed to fetch product image: '' @ statusText r'))],
       Responded ?body)"
    if k: "truthy (env_value (GOOGLE_API_KEY e'))" and f: "fetch e' p = Inr r'" and n: "\<not> ok r'"
    for e' r'
  proof -
    have t: "try_block e' (env_value (GOOGLE_API_KEY e')) u p q =
             ([Fetch p], Inl (JsError (''Failed to fetch product image: '' @ statusText r')))"
      using f n by (rule try_block_not_ok)
    from handler_try_throws [OF assms(1-5) k t]
    show ?thesis
      by (simp add: log_detail_def error_body_def generic_message_def)
  qed
  have t: "try_block e (env_value (GOOGLE_API_KEY e)) u p q =
           ([Fetch p], Inl (JsError (''Failed to fetch product image: '' @ statusText r)))"
    using assms(7,8) by (rule try_block_not_ok)
  have h: "handler e req =
      ([Fetch p,
        ConsoleError ''Error in image generation:''
          (LogText (''Failed to fetch product image: '' @ statusText r))],
       Responded ?body)"
    using assms(6-8) by (rule any)
  let ?e = "e\<lparr>fetch := (fetch e)(p := Inr (r\<lparr>statusText := st\<rparr>))\<rparr>"
  have "handler ?e req =
      ([Fetch p,
        ConsoleError ''Error in image generation:''
          (LogText (''Failed to fetch product image: '' @ statusText (r\<lparr>statusText := st\<rparr>)))],
       Responded ?body)"
    using assms(6,8) by (intro any) simp_all
  with h have "snd (handler ?e req) = snd (handler e req)"
    by simp
  with t h show ?thesis
    by simp
qed

theorem fetch_failure_500_witness:
  "handler not_found_env sample_request =
     ([Fetch (JStr ''https://example.com/product.jpg''),
       ConsoleError ''Error in image generation:''
         (LogText ''Failed to fetch product image: Not Found'')],
      Responded \<lparr>status = 500, json = JObj [(''error'',
         JStr ''Failed to generate try-on image. Please try again or check logs.'')]\<rparr>)
   \<and> snd (handler (not_found_env\<lparr>fetch := (fetch not_found_env)
                 (JStr ''https://example.com/product.jpg'' :=
                    Inr (not_found_response\<lparr>statusText := ''Failed''\<rparr>))\<rparr>) sample_request) =
       Responded \<lparr>status = 500, json = JObj [(''error'',
         JStr ''Failed to generate try-on image. Please try again or check logs.'')]\<rparr>"
proof -
  have k: "truthy (env_value (GOOGLE_API_KEY not_found_env))"
    by (simp add: not_found_env_def sample_env_def)
  have f: "fetch not_found_env (JStr ''https://example.com/product.jpg'') = Inr not_found_response"
    by (simp add: not_found_env_def)
  have n: "\<not> ok not_found_response"
    by (simp add: not_found_response_def)
  from fetch_failure_500 [OF sample_request_post sample_request_fields _ _ _ k f n,
         of "''Failed''"]
  show ?thesis
    by (simp add: not_found_response_def)
qed

subsection \<open>Response mapping\<close>

text \<open>
  Claim C7 says that a "no content" error is raised whenever the provider's response
  lacks the output field, also when the structure around the field is absent, and the
  comment above the read says that missing content, as for a blocked prompt, is
  handled by that error. At the sample request, with a provider result that holds no
  candidate, the unguarded read of \<open>candidates[0].content\<close> throws a TypeError before
  the check that raises \<open>No generated image in Gemini response\<close> is reached: the
  TypeError is the error raised and logged. The answer is 500 with the generic message.
\<close>

theorem blocked_prompt_type_error:
  "try_block blocked_env (JStr ''test-key'') (JStr ''data:image/jpeg;base64,/9j/4AAQ'')
          (JStr ''https://example.com/product.jpg'')
          (JStr ''Show how this dress would look on the person'') =
     ([Fetch (JStr ''https://example.com/product.jpg''),
       ProviderCall (JStr ''test-key'') ''gemini-1.5-flash'' sample_content],
      Inl (JsTypeError (''Cannot read properties of undefined (reading '' @ [CHR 0x27]
                        @ ''content'' @ [CHR 0x27] @ '')'')))
   \<and> snd (try_block blocked_env (JStr ''test-key'') (JStr ''data:image/jpeg;base64,/9j/4AAQ'')
          (JStr ''https://example.com/product.jpg'')
          (JStr ''Show how this dress would look on the person'')) \<noteq>
     Inl (JsError ''No generated image in Gemini response'')
   \<and> handler blocked_env sample_request =
     ([Fetch (JStr ''https://example.com/product.jpg''),
       ProviderCall (JStr ''test-key'') ''gemini-1.5-flash'' sample_content,
       ConsoleError ''Error in image generation:''
         (LogText (''Cannot read properties of undefined (reading '' @ [CHR 0x27]
                   @ ''content'' @ [CHR 0x27] @ '')''))],
      Responded \<lparr>status = 500, json = JObj [(''error'', JStr generic_message)]\<rparr>)"
  by (simp add: sample_defs eval_defs sample_content_def)

subsection \<open>The successful invocation\<close>

text \<open>
  Claim C2 says that every POST request with three truthy fields, a configured key, a
  reachable product image and a provider response holding the expected field is
  answered 200, and that in the text-provider scenario the body has the shape
  \<open>{ description, message, type: "text_description" }\<close>. Three invocations answered
  500 with the generic message: the sample request (prompt
  \<open>Show how this dress would look on the person\<close>) with a provider that answers with
  a text part; a request whose \<open>userPhoto\<close> is the number 1 (truthy), the \<open>split\<close>
  call throwing after the product image was fetched; and the sample request with a
  provider whose \<open>data\<close> is an object with an own \<open>toString\<close> property (truthy), the
  template literal that builds the URL throwing.
\<close>

theorem text_scenario_counterexample:
  "handler text_env sample_request =
     ([Fetch (JStr ''https://example.com/product.jpg''),
       ProviderCall (JStr ''test-key'') ''gemini-1.5-flash'' sample_content,
       ConsoleError ''Error in image generation:''
         (LogText (''Cannot read properties of undefined (reading '' @ [CHR 0x27]
                   @ ''data'' @ [CHR 0x27] @ '')''))],
      Responded \<lparr>status = 500, json = JObj [(''error'', JStr generic_message)]\<rparr>)
   \<and> handler sample_env numeric_photo_request =
     ([Fetch (JStr ''https://example.com/product.jpg''),
       ConsoleError ''Error in image generation:'' (LogText ''userPhoto.split is not a function'')],
      Responded \<lparr>status = 500, json = JObj [(''error'', JStr generic_message)]\<rparr>)
   \<and> handler unprintable_env sample_request =
     ([Fetch (JStr ''https://example.com/product.jpg''),
       ProviderCall (JStr ''test-key'') ''gemini-1.5-flash'' sample_content,
       ConsoleError ''Error in image generation:''
         (LogText ''Cannot convert object to primitive value'')],
      Responded \<lparr>status = 500, json = JObj [(''error'', JStr generic_message)]\<rparr>)"
  by (simp add: sample_defs eval_defs sample_content_def)

text \<open>
  Claim C2, as the code has it. For every POST request whose \<open>userPhoto\<close> is a
  non-empty string and whose \<open>productImage\<close> and \<open>prompt\<close> are truthy, with a
  configured key, a product-image fetch that resolves to an \<open>ok\<close> response whose body
  can be read, and a provider result whose
  \<open>response.candidates[0].content.parts[0].inlineData.data\<close> is a truthy value that
  converts to the string \<open>t\<close>, the handler performs the fetch and the provider call and
  answers 200 with the body \<open>{ generatedImageUrl: "data:image/png;base64," + t }\<close>.
  A string converts to itself, so a non-empty string payload appears verbatim at the
  end of the URL.
\<close>

theorem success_200:
  assumes "req_method req = ''POST''" and "destructure (req_body req) = Inr (JStr s, p, q)"
    and "s \<noteq> []" and "truthy p" and "truthy q"
    and "truthy (env_value (GOOGLE_API_KEY e))"
    and "fetch e p = Inr r" and "ok r" and "arrayBuffer r = Inr bs"
    and "user_base64 (JStr s) = Inr ub"
    and "c = [Text q, InlineData ''image/jpeg'' ub, InlineData (product_mime r) (base64 bs)]"
    and "generateContent e (env_value (GOOGLE_API_KEY e)) model_name c = Inr result"
    and "walk result generated_path = Inr g" and "truthy g" and "js_to_string g = Inr t"
  shows "handler e req =
           ([Fetch p, ProviderCall (env_value (GOOGLE_API_KEY e)) model_name c],
            Responded \<lparr>status = 200,
                        json = JObj [(''generatedImageUrl'',
                                      JStr (''data:image/png;base64,'' @ t))]\<rparr>)
       \<and> (g = JStr d \<longrightarrow> t = d)"
proof
  have u: "truthy (JStr s)"
    using assms(3) by simp
  from assms(1,2) u assms(4-15)
  show "handler e req =
      ([Fetch p, ProviderCall (env_value (GOOGLE_API_KEY e)) model_name c],
       Responded \<lparr>status = 200,
                   json = JObj [(''generatedImageUrl'',
                                 JStr (''data:image/png;base64,'' @ t))]\<rparr>)"
    by (rule handler_success)
next
  from assms(15) show "g = JStr d \<longrightarrow> t = d"
    by auto
qed

theorem success_200_witness:
  "handler sample_env sample_request =
     ([Fetch (JStr ''https://example.com/product.jpg''),
       ProviderCall (JStr ''test-key'') ''gemini-1.5-flash'' sample_content],
      Responded \<lparr>status = 200,
                  json = JObj [(''generatedImageUrl'',
                                JStr ''data:image/png;base64,iVBORw0KGgo='')]\<rparr>)"
proof -
  have g: "generateContent sample_env (env_value (GOOGLE_API_KEY sample_env)) model_name
             sample_content = Inr (provider_result image_part)"
    by (simp add: sample_env_def)
  have w: "walk (provider_result image_part) generated_path = Inr (JStr ''iVBORw0KGgo='')"
    by (simp add: provider_result_def image_part_def generated_path_def get_prop_def
                  get_index0_def)
  have t: "js_to_string (JStr ''iVBORw0KGgo='') = Inr ''iVBORw0KGgo=''"
    by simp
  from success_200 [OF sample_request_post sample_request_fields _ _ _ sample_key sample_fetch
         sample_ok sample_buffer sample_payload sample_content_eq g w _ t, THEN conjunct1]
  show ?thesis
    by (simp add: sample_env_def model_name_def)
qed

subsection \<open>The two implementations compared\<close>



subsection \<open>The user photo sent to the provider\<close>

text \<open>
  Claim C10 says that the payload is the substring after the first comma of
  \<open>userPhoto\<close> when that substring is non-empty. For the string \<open>a,b,c\<close> the substring
  after the first comma is \<open>b,c\<close>, and the code sends \<open>b\<close>: \<open>split(",")[1]\<close> is the
  piece between the first comma and the second one.
\<close>

theorem user_payload_counterexample:
  "user_base64 (JStr ''a,b,c'') = Inr ''b''
   \<and> payload_after_first_comma ''a,b,c'' = ''b,c''
   \<and> user_base64 (JStr ''a,b,c'') \<noteq> Inr (payload_after_first_comma ''a,b,c'')"
  by (simp add: user_base64_def payload_after_first_comma_def)

text \<open>
  Claim C10, as the code has it. The payload computed from a string \<open>userPhoto\<close> is the
  piece between its first comma and its next comma (or its end) when that piece is
  non-empty, and the entire string otherwise (no comma, or nothing between the first
  comma and the next one or the end); for a string with at most one comma this is the
  substring after the first comma when non-empty and the entire string otherwise.
  Whenever the Gemini handler calls the provider, \<open>userPhoto\<close> is a string and the
  content array is the prompt, then the user photo tagged \<open>image/jpeg\<close> with that
  payload (whatever MIME type its data-URL prefix declares), then the product image.
\<close>

theorem user_photo_part:
  "user_base64 (JStr s) = Inr (second_piece_or_whole s)
   \<and> (length (filter (\<lambda>ch. ch = CHR '','') s) \<le> 1 \<longrightarrow>
        second_piece_or_whole s = payload_after_first_comma s)
   \<and> (ProviderCall k m c \<in> set (fst (handler e req)) \<longrightarrow>
        (\<exists>s' pm pd. own_prop (req_body req) ''userPhoto'' = JStr s'
            \<and> c = [Text (own_prop (req_body req) ''prompt''),
                     InlineData ''image/jpeg'' (second_piece_or_whole s'),
                     InlineData pm pd]))"
proof (intro conjI impI)
  show "user_base64 (JStr s) = Inr (second_piece_or_whole s)"
    by (rule user_base64_string)
next
  assume "length (filter (\<lambda>ch. ch = CHR '','') s) \<le> 1"
  then show "second_piece_or_whole s = payload_after_first_comma s"
    by (rule one_comma_payload)
next
  assume "ProviderCall k m c \<in> set (fst (handler e req))"
  then show "\<exists>s' pm pd. own_prop (req_body req) ''userPhoto'' = JStr s'
            \<and> c = [Text (own_prop (req_body req) ''prompt''),
                     InlineData ''image/jpeg'' (second_piece_or_whole s'),
                     InlineData pm pd]"
    by (rule handler_provider_content)
qed

theorem user_photo_part_witness:
  "user_base64 (JStr ''data:image/png;base64,iVBORw0KGgo='') = Inr ''iVBORw0KGgo=''
   \<and> second_piece_or_whole ''data:image/png;base64,iVBORw0KGgo='' =
       payload_after_first_comma ''data:image/png;base64,iVBORw0KGgo=''
   \<and> ProviderCall (JStr ''test-key'') ''gemini-1.5-flash''
         [Text (JStr ''Show how this dress would look on the person''),
          InlineData ''image/jpeg'' ''iVBORw0KGgo='',
          InlineData ''image/jpeg'' ''TWFu'']
         \<in> set (fst (handler sample_env png_photo_request))
   \<and> (\<exists>s' pm pd. own_prop (req_body png_photo_request) ''userPhoto'' = JStr s'
          \<and> [Text (JStr ''Show how this dress would look on the person''),
              InlineData ''image/jpeg'' ''iVBORw0KGgo='',
              InlineData ''image/jpeg'' ''TWFu''] =
             [Text (own_prop (req_body png_photo_request) ''prompt''),
              InlineData ''image/jpeg'' (second_piece_or_whole s'),
              InlineData pm pd])"
proof (intro conjI)
  let ?c = "[Text (JStr ''Show how this dress would look on the person''),
             InlineData ''image/jpeg'' ''iVBORw0KGgo='',
             InlineData ''image/jpeg'' ''TWFu'']"
  note t = user_photo_part [of "''data:image/png;base64,iVBORw0KGgo=''"
             "JStr ''test-key''" "''gemini-1.5-flash''" ?c sample_env png_photo_request]
  have p: "second_piece_or_whole ''data:image/png;base64,iVBORw0KGgo='' = ''iVBORw0KGgo=''"
    by (simp add: second_piece_or_whole_def)
  from t [THEN conjunct1] p
  show "user_base64 (JStr ''data:image/png;base64,iVBORw0KGgo='') = Inr ''iVBORw0KGgo=''"
    by simp
  have "length (filter (\<lambda>ch. ch = CHR '','') ''data:image/png;base64,iVBORw0KGgo='') \<le> 1"
    by simp
  with t [THEN conjunct2, THEN conjunct1]
  show "second_piece_or_whole ''data:image/png;base64,iVBORw0KGgo='' =
        payload_after_first_comma ''data:image/png;base64,iVBORw0KGgo=''"
    by (rule mp)
  show call: "ProviderCall (JStr ''test-key'') ''gemini-1.5-flash'' ?c
         \<in> set (fst (handler sample_env png_photo_request))"
    by (simp add: sample_defs eval_defs)
  with t [THEN conjunct2, THEN conjunct2]
  show "\<exists>s' pm pd. own_prop (req_body png_photo_request) ''userPhoto'' = JStr s'
          \<and> ?c = [Text (own_prop (req_body png_photo_request) ''prompt''),
                   InlineData ''image/jpeg'' (second_piece_or_whole s'),
                   InlineData pm pd]"
    by (rule mp)
qed

end
